theory Spec2Isabelle
  imports Main
begin

unbundle bit_operations_syntax

section \<open>Attaching a stdio stream to a file descriptor\<close>

text \<open>
  A shallow embedding of \<^verbatim>\<open>__fdopen\<close> (third_party/ulib/musl/src/stdio/__fdopen.c,
  exported as \<^verbatim>\<open>fdopen\<close> through a weak alias). The function validates the mode
  string, queries the descriptor, allocates a \<^verbatim>\<open>FILE\<close> with its buffer, fills the
  header in, adjusts the descriptor's flags and links the object into the list of open
  files.

  C \<^verbatim>\<open>int\<close> values are modelled as \<open>int\<close>: the function compares, tests and sets
  bits, and never does arithmetic that could overflow. Sizes and addresses are \<open>nat\<close>.
\<close>

subsection \<open>Header constants\<close>

text \<open>
  The headers that give the macros their values (\<^verbatim>\<open>stdio_impl.h\<close>, \<^verbatim>\<open>stdio.h\<close>,
  \<^verbatim>\<open>fcntl.h\<close>, \<^verbatim>\<open>errno.h\<close>) are not among the translated sources, so the values are a
  parameter of the model: one record holding every macro the function uses, and the size
  of the \<^verbatim>\<open>FILE\<close> header. \<open>EBADF\<close> and \<open>ENOMEM\<close> are the error numbers the
  modelled collaborators report.
\<close>

record hdr =
  F_NORD :: int
  F_NOWR :: int
  F_APP :: int
  UNGET :: nat
  BUFSIZ :: nat
  sizeof_FILE :: nat
  EOF :: int
  O_APPEND :: int
  FD_CLOEXEC :: int
  EINVAL :: int
  EBADF :: int
  ENOMEM :: int

text \<open>
  What the properties about flag bits need of the constants: the three stream flags are
  non-zero masks with no bit in common, the kernel's append flag is a non-zero mask, and
  \<^verbatim>\<open>EOF\<close> is negative (so it is no character).
\<close>

definition hdr_wf :: "hdr \<Rightarrow> bool" where
  "hdr_wf h \<longleftrightarrow>
     F_NORD h \<noteq> 0 \<and> F_NOWR h \<noteq> 0 \<and> F_APP h \<noteq> 0 \<and>
     F_NORD h AND F_NOWR h = 0 \<and> F_APP h AND F_NOWR h = 0 \<and> F_APP h AND F_NORD h = 0 \<and>
     O_APPEND h \<noteq> 0 \<and> EOF h < 0"

text \<open>The values musl gives the macros on Linux (x86-64), used for concrete runs.\<close>

definition musl_hdr :: hdr where
  "musl_hdr = \<lparr>F_NORD = 4, F_NOWR = 8, F_APP = 128, UNGET = 8, BUFSIZ = 1024,
     sizeof_FILE = 232, EOF = - 1, O_APPEND = 1024, FD_CLOEXEC = 1,
     EINVAL = 22, EBADF = 9, ENOMEM = 12\<rparr>"

subsection \<open>The stream object\<close>

text \<open>
  The fields of \<^verbatim>\<open>FILE\<close> that \<^verbatim>\<open>__fdopen\<close> writes. The four operation slots hold
  function pointers; \<open>Null_fn\<close> is the null pointer that \<^verbatim>\<open>memset\<close> leaves there.
  \<open>buf\<close> is an address; address 0 is the null pointer.
\<close>

datatype fn = Null_fn | Stdio_read | Stdio_write | Stdio_seek | Stdio_close

record FILE =
  flags :: int
  fd :: int
  buf :: nat
  buf_size :: nat
  lbf :: int
  read :: fn
  "write" :: fn
  seek :: fn
  close :: fn

text \<open>\<^verbatim>\<open>memset(f, 0, sizeof *f)\<close>: every field of the header is zero.\<close>

definition zero_FILE :: FILE where
  "zero_FILE = \<lparr>flags = 0, fd = 0, buf = 0, buf_size = 0, lbf = 0,
     read = Null_fn, write = Null_fn, seek = Null_fn, close = Null_fn\<rparr>"

subsection \<open>The process and its collaborators\<close>

text \<open>
  A descriptor as the kernel holds it: the status flags \<^verbatim>\<open>F_GETFL\<close> reports, the
  descriptor flags \<^verbatim>\<open>F_SETFD\<close> sets, whether it is a terminal, and for each of the three
  \<^verbatim>\<open>fcntl\<close> commands the error number it fails with on this descriptor, if it fails.
\<close>

record fdesc =
  status :: int
  fdflags :: int
  tty :: bool
  getfl_err :: "int option"
  setfd_err :: "int option"
  setfl_err :: "int option"

datatype cmd = F_GETFL | F_SETFD int | F_SETFL int

datatype call = Fcntl int cmd | Malloc nat | Ofl_add nat

text \<open>
  The state of the process that \<^verbatim>\<open>__fdopen\<close> reads and writes: \<^verbatim>\<open>errno\<close>, the
  descriptor table, the allocator (a break pointer below a limit, and the blocks handed
  out), the \<^verbatim>\<open>FILE\<close> headers in memory by address, the list of open files (newest
  first), and the calls made to the collaborators so far, oldest first.
\<close>

record world =
  errno :: int
  fdtab :: "int \<rightharpoonup> fdesc"
  brk :: nat
  heap_end :: nat
  allocated :: "(nat \<times> nat) list"
  files :: "nat \<rightharpoonup> FILE"
  ofl :: "nat list"
  calls :: "call list"

text \<open>
  Modelled from the spec: \<^verbatim>\<open>fcntl\<close> is not among the translated sources. The spec gives
  the contracts \<^verbatim>\<open>query_descriptor_flags(fd) -> flags | Error\<close> and
  \<^verbatim>\<open>set_descriptor_flags(fd, flags) -> Ok | Error\<close>. A failing call returns \<open>-1\<close>, sets
  \<^verbatim>\<open>errno\<close> and changes no descriptor; a descriptor that is not open fails with
  \<^verbatim>\<open>EBADF\<close>.
\<close>

definition fcntl :: "hdr \<Rightarrow> world \<Rightarrow> int \<Rightarrow> cmd \<Rightarrow> int \<times> world" where
  "fcntl h w fildes c =
     (let w' = w\<lparr>calls := calls w @ [Fcntl fildes c]\<rparr> in
      case fdtab w fildes of
        None \<Rightarrow> (- 1, w'\<lparr>errno := EBADF h\<rparr>)
      | Some d \<Rightarrow>
          (case c of
             F_GETFL \<Rightarrow>
               (case getfl_err d of
                  Some e \<Rightarrow> (- 1, w'\<lparr>errno := e\<rparr>)
                | None \<Rightarrow> (status d, w'))
           | F_SETFD a \<Rightarrow>
               (case setfd_err d of
                  Some e \<Rightarrow> (- 1, w'\<lparr>errno := e\<rparr>)
                | None \<Rightarrow> (0, w'\<lparr>fdtab := (fdtab w)(fildes \<mapsto> d\<lparr>fdflags := a\<rparr>)\<rparr>))
           | F_SETFL a \<Rightarrow>
               (case setfl_err d of
                  Some e \<Rightarrow> (- 1, w'\<lparr>errno := e\<rparr>)
                | None \<Rightarrow> (0, w'\<lparr>fdtab := (fdtab w)(fildes \<mapsto> d\<lparr>status := a\<rparr>)\<rparr>))))"

text \<open>
  Modelled from the spec: \<^verbatim>\<open>malloc\<close> is not among the translated sources. The spec gives
  \<^verbatim>\<open>allocate(size) -> memory | Error\<close>. \<open>None\<close> is the null pointer.
\<close>

definition malloc :: "hdr \<Rightarrow> world \<Rightarrow> nat \<Rightarrow> nat option \<times> world" where
  "malloc h w n =
     (let w' = w\<lparr>calls := calls w @ [Malloc n]\<rparr> in
      if brk w + n \<le> heap_end w
      then (Some (brk w), w'\<lparr>brk := brk w + n, allocated := (brk w, n) # allocated w\<rparr>)
      else (None, w'\<lparr>errno := ENOMEM h\<rparr>))"

text \<open>
  Modelled from the spec: \<^verbatim>\<open>isatty\<close> is not among the translated sources. The spec gives
  \<^verbatim>\<open>is_terminal(fd) -> bool\<close>; only the answer is modelled.
\<close>

definition isatty :: "world \<Rightarrow> int \<Rightarrow> bool" where
  "isatty w fildes = (case fdtab w fildes of None \<Rightarrow> False | Some d \<Rightarrow> tty d)"

text \<open>
  Modelled from the spec: \<^verbatim>\<open>__ofl_add\<close> is not among the translated sources. The spec
  gives \<^verbatim>\<open>registry.insert(stream)\<close>, which links the stream into the list of live
  streams and returns it.
\<close>

definition ofl_add :: "world \<Rightarrow> nat \<Rightarrow> nat option \<times> world" where
  "ofl_add w f = (Some f, w\<lparr>ofl := f # ofl w, calls := calls w @ [Ofl_add f]\<rparr>)"

subsection \<open>C strings\<close>

text \<open>
  A C string is the bytes up to the first NUL. \<open>deref s\<close> is \<^verbatim>\<open>*s\<close>: the first byte, which
  is the terminator when the string is empty. \<open>strchr s c\<close> is the offset of the first
  \<open>c\<close> in \<open>s\<close>, the terminator included as the C function includes it, or \<open>None\<close> for the
  null pointer.
\<close>

definition deref :: "string \<Rightarrow> char" where
  "deref s = (case s of [] \<Rightarrow> CHR 0x00 | c # _ \<Rightarrow> c)"

fun strchr :: "string \<Rightarrow> char \<Rightarrow> nat option" where
  "strchr [] c = (if c = CHR 0x00 then Some 0 else None)"
| "strchr (x # xs) c =
     (if x = c then Some 0
      else if x = CHR 0x00 then None
      else map_option Suc (strchr xs c))"

subsection \<open>The function\<close>

text \<open>
  The body of \<^verbatim>\<open>__fdopen\<close> after the allocation is a sequence of commented blocks;
  each is a definition here. Until \<^verbatim>\<open>__ofl_add\<close> publishes it the object at \<open>f\<close> is
  private to the function, so its header is built as a value \<open>F\<close> and stored at \<open>f\<close>
  when it is complete.
\<close>

text \<open>Impose mode restrictions (lines 31-33).\<close>

definition impose_mode :: "hdr \<Rightarrow> string \<Rightarrow> FILE \<Rightarrow> FILE" where
  "impose_mode h mode F =
     (if strchr mode CHR ''+'' = None
      then F\<lparr>flags := (if deref mode = CHR ''r'' then F_NOWR h else F_NORD h)\<rparr>
      else F)"

text \<open>Apply close-on-exec flag (lines 35-37). The result of \<^verbatim>\<open>fcntl\<close> is dropped.\<close>

definition apply_cloexec :: "hdr \<Rightarrow> world \<Rightarrow> int \<Rightarrow> string \<Rightarrow> world" where
  "apply_cloexec h w fildes mode =
     (if strchr mode CHR ''e'' \<noteq> None
      then snd (fcntl h w fildes (F_SETFD (FD_CLOEXEC h)))
      else w)"

text \<open>
  Set append mode on fd if opened for append (lines 39-44). \<open>flags0\<close> is the value the
  query returned. The result of \<^verbatim>\<open>fcntl\<close> is dropped.
\<close>

definition set_append :: "hdr \<Rightarrow> world \<Rightarrow> int \<Rightarrow> string \<Rightarrow> int \<Rightarrow> FILE \<Rightarrow> FILE \<times> world" where
  "set_append h w fildes mode flags0 F =
     (if deref mode = CHR ''a''
      then (F\<lparr>flags := flags F OR F_APP h\<rparr>,
            if flags0 AND O_APPEND h = 0
            then snd (fcntl h w fildes (F_SETFL (flags0 OR O_APPEND h)))
            else w)
      else (F, w))"

text \<open>
  Activate line buffered mode for terminals (lines 50-53). \<^verbatim>\<open>&&\<close> calls \<^verbatim>\<open>isatty\<close> only
  when the no-write bit is clear; the modelled \<open>isatty\<close> has no effect, so the
  conjunction says the same.
\<close>

definition line_buffer :: "hdr \<Rightarrow> world \<Rightarrow> int \<Rightarrow> FILE \<Rightarrow> FILE" where
  "line_buffer h w fildes F =
     (let F' = F\<lparr>lbf := EOF h\<rparr> in
      if flags F' AND F_NOWR h = 0 \<and> isatty w fildes
      then F'\<lparr>lbf := of_char (CHR 0x0A)\<rparr>
      else F')"

text \<open>Initialize op ptrs (lines 55-59).\<close>

definition init_ops :: "FILE \<Rightarrow> FILE" where
  "init_ops F = F\<lparr>read := Stdio_read, write := Stdio_write,
     seek := Stdio_seek, close := Stdio_close\<rparr>"

text \<open>
  Lines 28-62: what \<^verbatim>\<open>__fdopen\<close> does once \<^verbatim>\<open>malloc\<close> has returned the block at \<open>f\<close>,
  in the state \<open>w\<close> after the allocation.
\<close>

definition construct :: "hdr \<Rightarrow> world \<Rightarrow> int \<Rightarrow> string \<Rightarrow> int \<Rightarrow> nat \<Rightarrow> nat option \<times> world" where
  "construct h w fildes mode flags0 f =
     (let F1 = impose_mode h mode zero_FILE;
          w3 = apply_cloexec h w fildes mode;
          (F2, w4) = set_append h w3 fildes mode flags0 F1;
          F3 = F2\<lparr>fd := fildes, buf := f + sizeof_FILE h + UNGET h, buf_size := BUFSIZ h\<rparr>;
          F4 = line_buffer h w4 fildes F3;
          F5 = init_ops F4
      in ofl_add (w4\<lparr>files := (files w4)(f \<mapsto> F5)\<rparr>) f)"

text \<open>
  \<^verbatim>\<open>FILE* __fdopen(int fd, const char* mode)\<close>. The result is the address of the new
  stream, or \<open>None\<close> for the null pointer, with the state of the process after the call.
\<close>

definition fdopen :: "hdr \<Rightarrow> world \<Rightarrow> int \<Rightarrow> string \<Rightarrow> nat option \<times> world" where
  "fdopen h w fildes mode =
     (if strchr ''rwa'' (deref mode) = None then (None, w\<lparr>errno := EINVAL h\<rparr>)
      else
        (case fcntl h w fildes F_GETFL of (flags0, w1) \<Rightarrow>
           if flags0 < 0 then (None, w1)
           else
             (case malloc h w1 (sizeof_FILE h + UNGET h + BUFSIZ h) of
                (None, w2) \<Rightarrow> (None, w2)
              | (Some f, w2) \<Rightarrow> construct h w2 fildes mode flags0 f)))"

text \<open>The calls to the collaborators made between two states of the process.\<close>

definition issued :: "world \<Rightarrow> world \<Rightarrow> call list" where
  "issued w w' = drop (length (calls w)) (calls w')"

text \<open>
  The process \<open>w\<close> with one thing changed: whether \<^verbatim>\<open>F_SETFD\<close> fails on the descriptor
  \<open>fildes\<close> (\<open>Some e\<close>: it fails with error number \<open>e\<close>; \<open>None\<close>: it succeeds).
\<close>

definition with_setfd_err :: "world \<Rightarrow> int \<Rightarrow> int option \<Rightarrow> world" where
  "with_setfd_err w fildes r =
     (case fdtab w fildes of
        None \<Rightarrow> w
      | Some d \<Rightarrow> w\<lparr>fdtab := (fdtab w)(fildes \<mapsto> d\<lparr>setfd_err := r\<rparr>)\<rparr>)"

subsection \<open>A concrete process\<close>

text \<open>
  Descriptor 1 is a terminal open for writing, 3 a regular file open for reading and
  writing, 5 a descriptor on which setting the status flags fails; 4 is not open.
\<close>

definition tty_out :: fdesc where
  "tty_out = \<lparr>status = 1, fdflags = 0, tty = True,
     getfl_err = None, setfd_err = None, setfl_err = None\<rparr>"

definition reg_file :: fdesc where
  "reg_file = \<lparr>status = 2, fdflags = 0, tty = False,
     getfl_err = None, setfd_err = None, setfl_err = None\<rparr>"

definition no_setfl :: fdesc where
  "no_setfl = \<lparr>status = 2, fdflags = 0, tty = False,
     getfl_err = None, setfd_err = None, setfl_err = Some 1\<rparr>"

definition world0 :: world where
  "world0 = \<lparr>errno = 0, fdtab = [1 \<mapsto> tty_out, 3 \<mapsto> reg_file, 5 \<mapsto> no_setfl],
     brk = 4096, heap_end = 65536,
     allocated = [], files = Map.empty, ofl = [], calls = []\<rparr>"

section \<open>Properties\<close>

subsection \<open>Facts about the collaborators\<close>

lemma strchr_rwa: "strchr ''rwa'' c = None \<longleftrightarrow> c \<notin> {CHR ''r'', CHR ''w'', CHR ''a'', CHR 0x00}"
  by auto

lemma strchr_iff:
  "c \<noteq> CHR 0x00 \<Longrightarrow> strchr s c \<noteq> None \<longleftrightarrow> c \<in> set (takeWhile (\<lambda>x. x \<noteq> CHR 0x00) s)"
  by (induction s) auto

lemma fcntl_frame:
  "files (snd (fcntl h w d c)) = files w"
  "ofl (snd (fcntl h w d c)) = ofl w"
  "brk (snd (fcntl h w d c)) = brk w"
  "heap_end (snd (fcntl h w d c)) = heap_end w"
  "allocated (snd (fcntl h w d c)) = allocated w"
  "calls (snd (fcntl h w d c)) = calls w @ [Fcntl d c]"
  by (simp_all add: fcntl_def Let_def split: option.splits cmd.splits)

lemma fcntl_isatty: "isatty (snd (fcntl h w d c)) d' = isatty w d'"
  by (simp add: fcntl_def isatty_def Let_def split: option.splits cmd.splits)

lemma fcntl_getfl_fdtab: "fdtab (snd (fcntl h w d F_GETFL)) = fdtab w"
  by (auto simp: fcntl_def Let_def split: option.splits)


lemma malloc_frame:
  "files (snd (malloc h w n)) = files w"
  "ofl (snd (malloc h w n)) = ofl w"
  "fdtab (snd (malloc h w n)) = fdtab w"
  "calls (snd (malloc h w n)) = calls w @ [Malloc n]"
  by (simp_all add: malloc_def Let_def)

lemma malloc_isatty: "isatty (snd (malloc h w n)) d = isatty w d"
  by (simp add: isatty_def malloc_frame)

lemma malloc_None:
  "fst (malloc h w n) = None \<Longrightarrow> brk (snd (malloc h w n)) = brk w \<and> allocated (snd (malloc h w n)) = allocated w"
  by (simp add: malloc_def Let_def split: if_splits)

subsection \<open>Facts about the blocks\<close>

lemma apply_cloexec_frame:
  "files (apply_cloexec h w d mode) = files w"
  "ofl (apply_cloexec h w d mode) = ofl w"
  "isatty (apply_cloexec h w d mode) d' = isatty w d'"
  by (simp_all add: apply_cloexec_def fcntl_frame fcntl_isatty)

lemma apply_cloexec_calls:
  "calls (apply_cloexec h w d mode) =
     calls w @ (if strchr mode CHR ''e'' \<noteq> None then [Fcntl d (F_SETFD (FD_CLOEXEC h))] else [])"
  by (simp add: apply_cloexec_def fcntl_frame del: strchr.simps)

lemma set_append_frame:
  "files (snd (set_append h w d mode fl F)) = files w"
  "ofl (snd (set_append h w d mode fl F)) = ofl w"
  "isatty (snd (set_append h w d mode fl F)) d' = isatty w d'"
  by (simp_all add: set_append_def fcntl_frame fcntl_isatty)

lemma set_append_calls:
  "calls (snd (set_append h w d mode fl F)) =
     calls w @ (if deref mode = CHR ''a'' \<and> fl AND O_APPEND h = 0
                then [Fcntl d (F_SETFL (fl OR O_APPEND h))] else [])"
  by (simp add: set_append_def fcntl_frame)

lemma set_append_FILE:
  "fst (set_append h w d mode fl F) =
     (if deref mode = CHR ''a'' then F\<lparr>flags := flags F OR F_APP h\<rparr> else F)"
  by (simp add: set_append_def)

lemma construct_fst: "fst (construct h w d mode fl f) = Some f"
  by (simp add: construct_def ofl_add_def Let_def split_beta)

lemma construct_ofl: "ofl (snd (construct h w d mode fl f)) = f # ofl w"
  by (simp add: construct_def ofl_add_def Let_def split_beta set_append_frame apply_cloexec_frame)

lemma construct_calls:
  "calls (snd (construct h w d mode fl f)) =
     calls w @ (if strchr mode CHR ''e'' \<noteq> None then [Fcntl d (F_SETFD (FD_CLOEXEC h))] else [])
       @ (if deref mode = CHR ''a'' \<and> fl AND O_APPEND h = 0
          then [Fcntl d (F_SETFL (fl OR O_APPEND h))] else [])
       @ [Ofl_add f]"
  by (simp add: construct_def ofl_add_def Let_def split_beta set_append_calls apply_cloexec_calls
      del: strchr.simps)

text \<open>The header that \<open>construct\<close> stores at \<open>f\<close>, field by field.\<close>

lemma construct_files:
  "files (snd (construct h w d mode fl f)) =
     (files w)(f \<mapsto> init_ops (line_buffer h w d
        ((if deref mode = CHR ''a''
          then (impose_mode h mode zero_FILE)\<lparr>flags := flags (impose_mode h mode zero_FILE) OR F_APP h\<rparr>
          else impose_mode h mode zero_FILE)
           \<lparr>fd := d, buf := f + sizeof_FILE h + UNGET h, buf_size := BUFSIZ h\<rparr>)))"
  by (simp add: construct_def ofl_add_def Let_def split_beta set_append_frame apply_cloexec_frame
      set_append_FILE line_buffer_def)

lemma construct_stream:
  "\<exists>F. files (snd (construct h w d mode fl f)) f = Some F \<and>
     flags F = (if strchr mode CHR ''+'' = None
                then (if deref mode = CHR ''r'' then F_NOWR h else F_NORD h) else 0)
               OR (if deref mode = CHR ''a'' then F_APP h else 0) \<and>
     fd F = d \<and> buf F = f + sizeof_FILE h + UNGET h \<and> buf_size F = BUFSIZ h \<and>
     lbf F = (if flags F AND F_NOWR h = 0 \<and> isatty w d then of_char (CHR 0x0A) else EOF h) \<and>
     read F = Stdio_read \<and> write F = Stdio_write \<and> seek F = Stdio_seek \<and> close F = Stdio_close"
  by (simp add: construct_files init_ops_def line_buffer_def impose_mode_def zero_FILE_def Let_def
      del: strchr.simps)

subsection \<open>Facts about the whole function\<close>

lemma construct_Some: "construct h w d mode fl x = (Some f, w') \<Longrightarrow> x = f"
  using construct_fst [of h w d mode fl x] by simp

lemma fdopen_ok:
  assumes "strchr ''rwa'' (deref mode) \<noteq> None"
    and "fcntl h w d F_GETFL = (fl, w1)" and "0 \<le> fl"
    and "malloc h w1 (sizeof_FILE h + UNGET h + BUFSIZ h) = (Some f, w2)"
  shows "fdopen h w d mode = construct h w2 d mode fl f"
  using assms by (auto simp add: fdopen_def simp del: strchr.simps)

lemma fdopen_Some:
  assumes "fst (fdopen h w d mode) = Some f"
  shows "strchr ''rwa'' (deref mode) \<noteq> None \<and> 0 \<le> fst (fcntl h w d F_GETFL) \<and>
     fst (malloc h (snd (fcntl h w d F_GETFL)) (sizeof_FILE h + UNGET h + BUFSIZ h)) = Some f \<and>
     fdopen h w d mode =
       construct h (snd (malloc h (snd (fcntl h w d F_GETFL)) (sizeof_FILE h + UNGET h + BUFSIZ h)))
         d mode (fst (fcntl h w d F_GETFL)) f"
  using assms
  by (auto simp: fdopen_def split_beta construct_fst simp del: strchr.simps
      split: if_splits option.splits)

lemma fdopen_stream:
  assumes "fst (fdopen h w d mode) = Some f"
  shows "\<exists>F. files (snd (fdopen h w d mode)) f = Some F \<and>
     flags F = (if strchr mode CHR ''+'' = None
                then (if deref mode = CHR ''r'' then F_NOWR h else F_NORD h) else 0)
               OR (if deref mode = CHR ''a'' then F_APP h else 0) \<and>
     fd F = d \<and> buf F = f + sizeof_FILE h + UNGET h \<and> buf_size F = BUFSIZ h \<and>
     lbf F = (if flags F AND F_NOWR h = 0 \<and> isatty w d then of_char (CHR 0x0A) else EOF h) \<and>
     read F = Stdio_read \<and> write F = Stdio_write \<and> seek F = Stdio_seek \<and> close F = Stdio_close"
proof -
  let ?g = "fcntl h w d F_GETFL"
  let ?m = "malloc h (snd ?g) (sizeof_FILE h + UNGET h + BUFSIZ h)"
  have eq: "fdopen h w d mode = construct h (snd ?m) d mode (fst ?g) f"
    using fdopen_Some [OF assms] by simp
  have tty: "isatty (snd ?m) d = isatty w d"
    by (simp add: malloc_isatty fcntl_isatty)
  show ?thesis
    using construct_stream [of h "snd ?m" d mode "fst ?g" f] by (simp only: eq tty)
qed

text \<open>
  A first character other than \<open>r\<close>, \<open>w\<close>, \<open>a\<close> and NUL is rejected: the call returns
  the null pointer, sets \<^verbatim>\<open>errno\<close> to \<^verbatim>\<open>EINVAL\<close> and does nothing else.
\<close>

lemma fdopen_rejects:
  assumes "deref mode \<notin> {CHR ''r'', CHR ''w'', CHR ''a'', CHR 0x00}"
  shows "fdopen h w fildes mode = (None, w\<lparr>errno := EINVAL h\<rparr>)"
  using assms by (simp add: fdopen_def strchr_rwa del: strchr.simps)

subsection \<open>Bit masks\<close>

lemma or_and_disjoint: "(b::int) AND m = 0 \<Longrightarrow> (a OR b) AND m = a AND m"
  by (simp add: bit.conj_disj_distrib2)


subsection \<open>The descriptor's flags after the call\<close>






subsection \<open>The result in closed form\<close>

lemma malloc_fst: "fst (malloc h w n) = (if brk w + n \<le> heap_end w then Some (brk w) else None)"
  by (simp add: malloc_def Let_def)

lemma line_buffer_cong:
  "isatty w d = isatty w' d \<Longrightarrow> line_buffer h w d F = line_buffer h w' d F"
  by (simp add: line_buffer_def)

lemma fdopen_fst:
  "fst (fdopen h w d mode) =
     (if strchr ''rwa'' (deref mode) = None \<or> fst (fcntl h w d F_GETFL) < 0 then None
      else fst (malloc h w (sizeof_FILE h + UNGET h + BUFSIZ h)))"
  by (auto simp: fdopen_def split_beta construct_fst malloc_fst fcntl_frame
      simp del: strchr.simps split: option.splits)

lemma fdopen_files:
  "files (snd (fdopen h w d mode)) =
     (case fst (fdopen h w d mode) of
        None \<Rightarrow> files w
      | Some f \<Rightarrow> (files w)(f \<mapsto> init_ops (line_buffer h w d
        ((if deref mode = CHR ''a''
          then (impose_mode h mode zero_FILE)\<lparr>flags := flags (impose_mode h mode zero_FILE) OR F_APP h\<rparr>
          else impose_mode h mode zero_FILE)
           \<lparr>fd := d, buf := f + sizeof_FILE h + UNGET h, buf_size := BUFSIZ h\<rparr>))))"
proof (cases "fst (fdopen h w d mode)")
  case None
  then show ?thesis
    by (auto simp: fdopen_def split_beta construct_fst malloc_frame fcntl_frame
        simp del: strchr.simps split: option.splits if_splits)
next
  case (Some f)
  let ?g = "fcntl h w d F_GETFL"
  let ?m = "malloc h (snd ?g) (sizeof_FILE h + UNGET h + BUFSIZ h)"
  have eq: "fdopen h w d mode = construct h (snd ?m) d mode (fst ?g) f"
    using fdopen_Some [OF Some] by simp
  have tty: "isatty (snd ?m) d = isatty w d"
    by (simp add: malloc_isatty fcntl_isatty)
  show ?thesis
    by (simp add: eq construct_fst construct_files malloc_frame fcntl_frame
        line_buffer_cong [OF tty])
qed

lemma fdopen_ofl:
  "ofl (snd (fdopen h w d mode)) =
     (case fst (fdopen h w d mode) of None \<Rightarrow> ofl w | Some f \<Rightarrow> f # ofl w)"
proof (cases "fst (fdopen h w d mode)")
  case None
  then show ?thesis
    by (auto simp: fdopen_def split_beta construct_fst malloc_frame fcntl_frame
        simp del: strchr.simps split: option.splits if_splits)
next
  case (Some f)
  show ?thesis
    using fdopen_Some [OF Some]
    by (simp add: construct_fst construct_ofl malloc_frame fcntl_frame)
qed

lemma fdopen_issued:
  assumes "fst (fdopen h w d mode) = Some f"
  shows "issued w (snd (fdopen h w d mode)) =
     [Fcntl d F_GETFL, Malloc (sizeof_FILE h + UNGET h + BUFSIZ h)]
       @ (if strchr mode CHR ''e'' \<noteq> None then [Fcntl d (F_SETFD (FD_CLOEXEC h))] else [])
       @ (if deref mode = CHR ''a'' \<and> fst (fcntl h w d F_GETFL) AND O_APPEND h = 0
          then [Fcntl d (F_SETFL (fst (fcntl h w d F_GETFL) OR O_APPEND h))] else [])
       @ [Ofl_add f]"
  using fdopen_Some [OF assms]
  by (simp add: issued_def construct_calls malloc_frame fcntl_frame del: strchr.simps)

subsection \<open>The outcome of the close-on-exec request\<close>

lemma with_setfd_err_frame:
  "files (with_setfd_err w d r) = files w"
  "ofl (with_setfd_err w d r) = ofl w"
  "brk (with_setfd_err w d r) = brk w"
  "heap_end (with_setfd_err w d r) = heap_end w"
  "isatty (with_setfd_err w d r) d' = isatty w d'"
  "fst (fcntl h (with_setfd_err w d r) d' F_GETFL) = fst (fcntl h w d' F_GETFL)"
  by (auto simp: with_setfd_err_def isatty_def fcntl_def Let_def split: option.splits)

lemma with_setfd_err_fdtab:
  "fdtab w d = Some x \<Longrightarrow> fdtab (with_setfd_err w d r) d = Some (x\<lparr>setfd_err := r\<rparr>)"
  by (simp add: with_setfd_err_def)

lemma fdopen_with_setfd_err:
  "fst (fdopen h (with_setfd_err w d r) d mode) = fst (fdopen h w d mode)"
  "files (snd (fdopen h (with_setfd_err w d r) d mode)) = files (snd (fdopen h w d mode))"
  "ofl (snd (fdopen h (with_setfd_err w d r) d mode)) = ofl (snd (fdopen h w d mode))"
proof -
  show a: "fst (fdopen h (with_setfd_err w d r) d mode) = fst (fdopen h w d mode)"
    by (simp add: fdopen_fst malloc_fst with_setfd_err_frame del: strchr.simps)
  have tty: "isatty (with_setfd_err w d r) d = isatty w d"
    by (rule with_setfd_err_frame)
  show "files (snd (fdopen h (with_setfd_err w d r) d mode)) = files (snd (fdopen h w d mode))"
    by (simp only: fdopen_files [of h "with_setfd_err w d r"] fdopen_files [of h w] a
        with_setfd_err_frame(1) line_buffer_cong [OF tty])
  show "ofl (snd (fdopen h (with_setfd_err w d r) d mode)) = ofl (snd (fdopen h w d mode))"
    by (simp only: fdopen_ofl [of h "with_setfd_err w d r"] fdopen_ofl [of h w] a
        with_setfd_err_frame(2))
qed

subsection \<open>Mode strings that agree\<close>

lemma impose_mode_cong:
  assumes "deref m1 = deref m2"
    and "(strchr m1 CHR ''+'' = None) = (strchr m2 CHR ''+'' = None)"
  shows "impose_mode h m1 F = impose_mode h m2 F"
  using assms by (simp add: impose_mode_def del: strchr.simps)

lemma apply_cloexec_cong:
  assumes "(strchr m1 CHR ''e'' = None) = (strchr m2 CHR ''e'' = None)"
  shows "apply_cloexec h w d m1 = apply_cloexec h w d m2"
  using assms by (simp add: apply_cloexec_def del: strchr.simps)

lemma set_append_cong:
  assumes "deref m1 = deref m2"
  shows "set_append h w d m1 fl F = set_append h w d m2 fl F"
  using assms by (simp add: set_append_def)

subsection \<open>Concrete runs\<close>

text \<open>The definitions that the simplifier unfolds to run the function on \<open>world0\<close>.\<close>

lemmas run_defs = fdopen_def construct_def impose_mode_def apply_cloexec_def set_append_def
  line_buffer_def init_ops_def ofl_add_def fcntl_def malloc_def isatty_def deref_def
  zero_FILE_def musl_hdr_def world0_def tty_out_def reg_file_def no_setfl_def issued_def
  with_setfd_err_def hdr_wf_def Let_def

section \<open>The claims\<close>

subsection \<open>Validation of the first character\<close>

text \<open>
  Claim C1. The claim: for every mode string whose first character is not one of \<open>r\<close>,
  \<open>w\<close>, \<open>a\<close>, the call fails with \<^verbatim>\<open>EINVAL\<close> and a null result, allocates nothing and
  leaves the descriptor alone. The source comments its check as one for a valid initial
  mode character; the check is \<^verbatim>\<open>strchr("rwa", *mode)\<close>, and \<^verbatim>\<open>strchr\<close> finds the
  terminator of \<^verbatim>\<open>"rwa"\<close> when \<^verbatim>\<open>*mode\<close> is NUL. So on the empty mode string, whose first
  character is none of the three, the call goes on: on descriptor 3 of \<open>world0\<close> it
  returns the stream at 4096, leaves \<^verbatim>\<open>errno\<close> at 0 and allocates a block. Every other
  first character outside the three is rejected as the claim says (\<open>fdopen_rejects\<close>).
\<close>

theorem fdopen_empty_mode_accepted:
  "deref '''' \<notin> {CHR ''r'', CHR ''w'', CHR ''a''} \<and>
   fst (fdopen musl_hdr world0 3 '''') = Some 4096 \<and>
   errno (snd (fdopen musl_hdr world0 3 '''')) = 0 \<and>
   allocated (snd (fdopen musl_hdr world0 3 '''')) = [(4096, 1264)]"
  by (simp add: run_defs)

subsection \<open>Direction flags\<close>

text \<open>
  Claim C2. For every successful call: when the mode string has no \<open>+\<close>, exactly one of
  the no-read and no-write flags is set in the stream, no-write when the first character
  is \<open>r\<close> and no-read otherwise (so for \<open>w\<close> and \<open>a\<close>); when the mode string has a
  \<open>+\<close>, neither is set. No stream has both. A flag is set when \<^verbatim>\<open>flags & mask\<close> is
  non-zero, as the C code tests it.
\<close>

theorem fdopen_direction_flags:
  assumes "hdr_wf h" and "fst (fdopen h w fildes mode) = Some f"
  shows "\<exists>F. files (snd (fdopen h w fildes mode)) f = Some F \<and>
     (if strchr mode CHR ''+'' = None
      then (if deref mode = CHR ''r''
            then flags F AND F_NOWR h \<noteq> 0 \<and> flags F AND F_NORD h = 0
            else flags F AND F_NORD h \<noteq> 0 \<and> flags F AND F_NOWR h = 0)
      else flags F AND F_NORD h = 0 \<and> flags F AND F_NOWR h = 0) \<and>
     \<not> (flags F AND F_NORD h \<noteq> 0 \<and> flags F AND F_NOWR h \<noteq> 0)"
proof -
  obtain F where F: "files (snd (fdopen h w fildes mode)) f = Some F"
    and fl: "flags F = (if strchr mode CHR ''+'' = None
                then (if deref mode = CHR ''r'' then F_NOWR h else F_NORD h) else 0)
               OR (if deref mode = CHR ''a'' then F_APP h else 0)"
    using fdopen_stream [OF assms(2)] by blast
  have wf: "F_NORD h \<noteq> 0" "F_NOWR h \<noteq> 0" "F_NORD h AND F_NOWR h = 0"
    "F_NOWR h AND F_NORD h = 0" "F_APP h AND F_NOWR h = 0" "F_APP h AND F_NORD h = 0"
    using assms(1) by (simp_all add: hdr_wf_def and.commute)
  have "(if strchr mode CHR ''+'' = None
      then (if deref mode = CHR ''r''
            then flags F AND F_NOWR h \<noteq> 0 \<and> flags F AND F_NORD h = 0
            else flags F AND F_NORD h \<noteq> 0 \<and> flags F AND F_NOWR h = 0)
      else flags F AND F_NORD h = 0 \<and> flags F AND F_NOWR h = 0)"
    by (simp add: fl wf or_and_disjoint del: strchr.simps)
  then show ?thesis using F by (auto split: if_splits)
qed

theorem fdopen_direction_flags_witness:
  "hdr_wf musl_hdr \<and> fst (fdopen musl_hdr world0 3 ''r'') = Some 4096 \<and>
   map_option flags (files (snd (fdopen musl_hdr world0 3 ''r'')) 4096) = Some 8 \<and>
   (8 :: int) AND F_NOWR musl_hdr \<noteq> 0 \<and> (8 :: int) AND F_NORD musl_hdr = 0"
proof -
  have a: "hdr_wf musl_hdr" by (simp add: hdr_wf_def musl_hdr_def)
  have b: "fst (fdopen musl_hdr world0 3 ''r'') = Some 4096" by (simp add: run_defs)
  have c: "map_option flags (files (snd (fdopen musl_hdr world0 3 ''r'')) 4096) = Some 8"
    by (simp add: run_defs)
  show ?thesis
    using fdopen_direction_flags [OF a b] a b c by (simp add: musl_hdr_def)
qed

subsection \<open>Append mode\<close>




subsection \<open>Buffering policy\<close>

text \<open>
  Claim C4. For every successful call the stream's \<open>lbf\<close> is the newline character exactly
  when the stream's no-write bit is clear and \<open>isatty\<close> says the descriptor is a
  terminal; in every other case it is \<^verbatim>\<open>EOF\<close>. So a stream on a descriptor that is not a
  terminal, or with the no-write bit set, never has the newline there.
\<close>

theorem fdopen_line_buffering:
  assumes "hdr_wf h" and "fst (fdopen h w fildes mode) = Some f"
  shows "\<exists>F. files (snd (fdopen h w fildes mode)) f = Some F \<and>
     lbf F = (if flags F AND F_NOWR h = 0 \<and> isatty w fildes
              then of_char (CHR 0x0A) else EOF h) \<and>
     (lbf F = of_char (CHR 0x0A)) = (flags F AND F_NOWR h = 0 \<and> isatty w fildes)"
proof -
  obtain F where F: "files (snd (fdopen h w fildes mode)) f = Some F"
    and l: "lbf F = (if flags F AND F_NOWR h = 0 \<and> isatty w fildes
              then of_char (CHR 0x0A) else EOF h)"
    using fdopen_stream [OF assms(2)] by blast
  have "EOF h \<noteq> of_char (CHR 0x0A)"
    using assms(1) by (simp add: hdr_wf_def)
  then have "(lbf F = of_char (CHR 0x0A)) = (flags F AND F_NOWR h = 0 \<and> isatty w fildes)"
    by (simp add: l)
  then show ?thesis using F l by blast
qed

theorem fdopen_line_buffering_witness:
  "hdr_wf musl_hdr \<and> fst (fdopen musl_hdr world0 1 ''w'') = Some 4096 \<and>
   isatty world0 1 \<and>
   map_option flags (files (snd (fdopen musl_hdr world0 1 ''w'')) 4096) = Some 4 \<and>
   map_option lbf (files (snd (fdopen musl_hdr world0 1 ''w'')) 4096) = Some 10"
proof -
  have a: "hdr_wf musl_hdr" by (simp add: hdr_wf_def musl_hdr_def)
  have b: "fst (fdopen musl_hdr world0 1 ''w'') = Some 4096" by (simp add: run_defs)
  have c: "isatty world0 1" by (simp add: run_defs)
  have d: "map_option flags (files (snd (fdopen musl_hdr world0 1 ''w'')) 4096) = Some 4"
    by (simp add: run_defs)
  show ?thesis
    using fdopen_line_buffering [OF a b] a b c d by (auto simp: musl_hdr_def)
qed

subsection \<open>A failing query\<close>

text \<open>
  Claim C5. When the first character passes the check and the \<^verbatim>\<open>F_GETFL\<close> query
  returns a negative value, the call returns the null pointer in the state the query left
  (so with the \<^verbatim>\<open>errno\<close> the query set): the allocator, the descriptor table, the
  stream headers and the list of open files are as before the call, and the query is the
  only call made.
\<close>

theorem fdopen_query_fails:
  assumes "strchr ''rwa'' (deref mode) \<noteq> None"
    and "fst (fcntl h w fildes F_GETFL) < 0"
  shows "fdopen h w fildes mode = (None, snd (fcntl h w fildes F_GETFL)) \<and>
     brk (snd (fdopen h w fildes mode)) = brk w \<and>
     allocated (snd (fdopen h w fildes mode)) = allocated w \<and>
     fdtab (snd (fdopen h w fildes mode)) = fdtab w \<and>
     files (snd (fdopen h w fildes mode)) = files w \<and>
     ofl (snd (fdopen h w fildes mode)) = ofl w \<and>
     issued w (snd (fdopen h w fildes mode)) = [Fcntl fildes F_GETFL]"
proof -
  have eq: "fdopen h w fildes mode = (None, snd (fcntl h w fildes F_GETFL))"
    using assms by (auto simp: fdopen_def split_beta simp del: strchr.simps)
  show ?thesis
    by (simp add: eq fcntl_frame fcntl_getfl_fdtab issued_def)
qed

theorem fdopen_query_fails_witness:
  "strchr ''rwa'' (deref ''r'') \<noteq> None \<and> fst (fcntl musl_hdr world0 4 F_GETFL) < 0 \<and>
   fst (fdopen musl_hdr world0 4 ''r'') = None \<and>
   errno (snd (fdopen musl_hdr world0 4 ''r'')) = EBADF musl_hdr \<and>
   allocated (snd (fdopen musl_hdr world0 4 ''r'')) = [] \<and>
   ofl (snd (fdopen musl_hdr world0 4 ''r'')) = [] \<and>
   issued world0 (snd (fdopen musl_hdr world0 4 ''r'')) = [Fcntl 4 F_GETFL]"
proof -
  have a: "strchr ''rwa'' (deref ''r'') \<noteq> None" by (simp add: deref_def)
  have b: "fst (fcntl musl_hdr world0 4 F_GETFL) < 0" by (simp add: run_defs)
  have c: "errno (snd (fcntl musl_hdr world0 4 F_GETFL)) = EBADF musl_hdr"
    by (simp add: run_defs)
  have d: "allocated world0 = []" "ofl world0 = []" by (simp_all add: world0_def)
  show ?thesis
    using fdopen_query_fails [OF a b] a b c d by (simp add: fcntl_frame issued_def)
qed

subsection \<open>No failure after the allocation\<close>

text \<open>
  Claim C6. When the first character passes the check, the query returns a non-negative
  value and \<^verbatim>\<open>malloc\<close> returns a block at \<open>f\<close>, the call returns \<open>f\<close>: the list of open
  files afterwards is \<open>f\<close> in front of the list before, the last call made is the
  insertion of \<open>f\<close>, and the header at \<open>f\<close> has its four operation slots bound to
  \<^verbatim>\<open>__stdio_read\<close>, \<^verbatim>\<open>__stdio_write\<close>, \<^verbatim>\<open>__stdio_seek\<close> and \<^verbatim>\<open>__stdio_close\<close>.
\<close>

theorem fdopen_completes:
  assumes "strchr ''rwa'' (deref mode) \<noteq> None"
    and "fcntl h w fildes F_GETFL = (flags0, w1)" and "0 \<le> flags0"
    and "malloc h w1 (sizeof_FILE h + UNGET h + BUFSIZ h) = (Some f, w2)"
  shows "\<exists>F. fst (fdopen h w fildes mode) = Some f \<and>
     ofl (snd (fdopen h w fildes mode)) = f # ofl w \<and>
     last (calls (snd (fdopen h w fildes mode))) = Ofl_add f \<and>
     files (snd (fdopen h w fildes mode)) f = Some F \<and>
     read F = Stdio_read \<and> write F = Stdio_write \<and> seek F = Stdio_seek \<and> close F = Stdio_close"
proof -
  have eq: "fdopen h w fildes mode = construct h w2 fildes mode flags0 f"
    by (rule fdopen_ok [OF assms])
  have w2: "ofl w2 = ofl w"
    using malloc_frame(2) [of h w1 "sizeof_FILE h + UNGET h + BUFSIZ h"]
      fcntl_frame(2) [of h w fildes F_GETFL] assms(2,4) by simp
  have res: "fst (fdopen h w fildes mode) = Some f"
    by (simp add: eq construct_fst)
  have reg: "ofl (snd (fdopen h w fildes mode)) = f # ofl w"
    by (simp add: eq construct_ofl w2)
  have lst: "last (calls (snd (fdopen h w fildes mode))) = Ofl_add f"
    by (simp add: eq construct_calls del: strchr.simps)
  show ?thesis
    using fdopen_stream [OF res] res reg lst by blast
qed

theorem fdopen_completes_witness:
  "strchr ''rwa'' (deref ''r+'') \<noteq> None \<and> 0 \<le> fst (fcntl musl_hdr world0 3 F_GETFL) \<and>
   fst (malloc musl_hdr (snd (fcntl musl_hdr world0 3 F_GETFL)) 1264) = Some 4096 \<and>
   fst (fdopen musl_hdr world0 3 ''r+'') = Some 4096 \<and>
   ofl (snd (fdopen musl_hdr world0 3 ''r+'')) = [4096] \<and>
   last (calls (snd (fdopen musl_hdr world0 3 ''r+''))) = Ofl_add 4096 \<and>
   map_option read (files (snd (fdopen musl_hdr world0 3 ''r+'')) 4096) = Some Stdio_read"
proof -
  have a: "strchr ''rwa'' (deref ''r+'') \<noteq> None" by (simp add: deref_def)
  have b: "fcntl musl_hdr world0 3 F_GETFL =
      (fst (fcntl musl_hdr world0 3 F_GETFL), snd (fcntl musl_hdr world0 3 F_GETFL))"
    by simp
  have c: "0 \<le> fst (fcntl musl_hdr world0 3 F_GETFL)" by (simp add: run_defs)
  have n: "sizeof_FILE musl_hdr + UNGET musl_hdr + BUFSIZ musl_hdr = 1264"
    by (simp add: musl_hdr_def)
  have m: "fst (malloc musl_hdr (snd (fcntl musl_hdr world0 3 F_GETFL)) 1264) = Some 4096"
    by (simp add: run_defs)
  have d: "malloc musl_hdr (snd (fcntl musl_hdr world0 3 F_GETFL))
       (sizeof_FILE musl_hdr + UNGET musl_hdr + BUFSIZ musl_hdr) =
      (Some 4096, snd (malloc musl_hdr (snd (fcntl musl_hdr world0 3 F_GETFL)) 1264))"
    using m by (simp add: n prod_eq_iff)
  have e: "ofl world0 = []" by (simp add: world0_def)
  show ?thesis
    using fdopen_completes [OF a b c d] a c m e by auto
qed

subsection \<open>Close-on-exec\<close>

text \<open>
  Claim C7. When the mode string contains \<open>e\<close> (and the first character, the query and
  the allocation are good), the call issues \<^verbatim>\<open>fcntl(fd, F_SETFD, FD_CLOEXEC)\<close> and drops
  its result: in two processes that differ only in whether \<^verbatim>\<open>F_SETFD\<close> succeeds on the
  descriptor (or in the error it fails with), the call returns the same address, stores
  the same stream headers and leaves the same list of open files. The failing call still
  sets \<^verbatim>\<open>errno\<close>; the return value does not show it.
\<close>

theorem fdopen_cloexec_best_effort:
  assumes "strchr ''rwa'' (deref mode) \<noteq> None" and "strchr mode CHR ''e'' \<noteq> None"
    and "fcntl h w fildes F_GETFL = (flags0, w1)" and "0 \<le> flags0"
    and "malloc h w1 (sizeof_FILE h + UNGET h + BUFSIZ h) = (Some f, w2)"
  shows "fst (fdopen h (with_setfd_err w fildes r1) fildes mode) = Some f \<and>
     fst (fdopen h (with_setfd_err w fildes r2) fildes mode) = Some f \<and>
     files (snd (fdopen h (with_setfd_err w fildes r1) fildes mode)) =
       files (snd (fdopen h (with_setfd_err w fildes r2) fildes mode)) \<and>
     ofl (snd (fdopen h (with_setfd_err w fildes r1) fildes mode)) =
       ofl (snd (fdopen h (with_setfd_err w fildes r2) fildes mode)) \<and>
     Fcntl fildes (F_SETFD (FD_CLOEXEC h))
       \<in> set (issued (with_setfd_err w fildes r1)
                (snd (fdopen h (with_setfd_err w fildes r1) fildes mode)))"
proof -
  have res: "fst (fdopen h w fildes mode) = Some f"
    by (simp add: fdopen_ok [OF assms(1,3,4,5)] construct_fst)
  have r: "fst (fdopen h (with_setfd_err w fildes r) fildes mode) = Some f" for r
    by (simp only: fdopen_with_setfd_err(1) res)
  have "Fcntl fildes (F_SETFD (FD_CLOEXEC h))
       \<in> set (issued (with_setfd_err w fildes r1)
                (snd (fdopen h (with_setfd_err w fildes r1) fildes mode)))"
    using assms(2) by (simp add: fdopen_issued [OF r] del: strchr.simps)
  then show ?thesis
    by (simp only: r fdopen_with_setfd_err(2,3))
qed

theorem fdopen_cloexec_best_effort_witness:
  "strchr ''rwa'' (deref ''re'') \<noteq> None \<and> strchr ''re'' CHR ''e'' \<noteq> None \<and>
   0 \<le> fst (fcntl musl_hdr world0 3 F_GETFL) \<and>
   fst (malloc musl_hdr (snd (fcntl musl_hdr world0 3 F_GETFL)) 1264) = Some 4096 \<and>
   fst (fdopen musl_hdr (with_setfd_err world0 3 None) 3 ''re'') = Some 4096 \<and>
   fst (fdopen musl_hdr (with_setfd_err world0 3 (Some 9)) 3 ''re'') = Some 4096 \<and>
   files (snd (fdopen musl_hdr (with_setfd_err world0 3 None) 3 ''re'')) =
     files (snd (fdopen musl_hdr (with_setfd_err world0 3 (Some 9)) 3 ''re'')) \<and>
   map_option fdflags (fdtab (snd (fdopen musl_hdr (with_setfd_err world0 3 None) 3 ''re'')) 3)
     = Some 1 \<and>
   map_option fdflags (fdtab (snd (fdopen musl_hdr (with_setfd_err world0 3 (Some 9)) 3 ''re'')) 3)
     = Some 0 \<and>
   issued (with_setfd_err world0 3 (Some 9))
       (snd (fdopen musl_hdr (with_setfd_err world0 3 (Some 9)) 3 ''re''))
     = [Fcntl 3 F_GETFL, Malloc 1264, Fcntl 3 (F_SETFD 1), Ofl_add 4096]"
proof -
  have a: "strchr ''rwa'' (deref ''re'') \<noteq> None" by (simp add: deref_def)
  have b: "strchr ''re'' CHR ''e'' \<noteq> None" by simp
  have c: "fcntl musl_hdr world0 3 F_GETFL =
      (fst (fcntl musl_hdr world0 3 F_GETFL), snd (fcntl musl_hdr world0 3 F_GETFL))"
    by simp
  have d: "0 \<le> fst (fcntl musl_hdr world0 3 F_GETFL)" by (simp add: run_defs)
  have n: "sizeof_FILE musl_hdr + UNGET musl_hdr + BUFSIZ musl_hdr = 1264"
    by (simp add: musl_hdr_def)
  have m: "fst (malloc musl_hdr (snd (fcntl musl_hdr world0 3 F_GETFL)) 1264) = Some 4096"
    by (simp add: run_defs)
  have e: "malloc musl_hdr (snd (fcntl musl_hdr world0 3 F_GETFL))
       (sizeof_FILE musl_hdr + UNGET musl_hdr + BUFSIZ musl_hdr) =
      (Some 4096, snd (malloc musl_hdr (snd (fcntl musl_hdr world0 3 F_GETFL)) 1264))"
    using m by (simp add: n prod_eq_iff)
  have f: "map_option fdflags
      (fdtab (snd (fdopen musl_hdr (with_setfd_err world0 3 None) 3 ''re'')) 3) = Some 1"
    by (simp add: run_defs)
  have g: "map_option fdflags
      (fdtab (snd (fdopen musl_hdr (with_setfd_err world0 3 (Some 9)) 3 ''re'')) 3) = Some 0"
    by (simp add: run_defs)
  have i: "issued (with_setfd_err world0 3 (Some 9))
       (snd (fdopen musl_hdr (with_setfd_err world0 3 (Some 9)) 3 ''re''))
     = [Fcntl 3 F_GETFL, Malloc 1264, Fcntl 3 (F_SETFD 1), Ofl_add 4096]"
    by (simp add: run_defs)
  show ?thesis
    using fdopen_cloexec_best_effort [OF a b c d e, of None "Some 9"] a b d m f g i
    by simp
qed

subsection \<open>Buffer layout\<close>

text \<open>
  Claim C8. For every stream a successful call returns, the buffer pointer is the address
  of the object plus the size of the header plus \<^verbatim>\<open>UNGET\<close>, and the recorded capacity is
  \<^verbatim>\<open>BUFSIZ\<close>, whatever the descriptor and the mode.
\<close>

theorem fdopen_buffer_layout:
  assumes "fst (fdopen h w fildes mode) = Some f"
  shows "\<exists>F. files (snd (fdopen h w fildes mode)) f = Some F \<and>
     buf F = f + sizeof_FILE h + UNGET h \<and> buf_size F = BUFSIZ h"
  using fdopen_stream [OF assms] by blast

theorem fdopen_buffer_layout_witness:
  "fst (fdopen musl_hdr world0 3 ''w'') = Some 4096 \<and>
   map_option buf (files (snd (fdopen musl_hdr world0 3 ''w'')) 4096) = Some (4096 + 232 + 8) \<and>
   map_option buf_size (files (snd (fdopen musl_hdr world0 3 ''w'')) 4096) = Some 1024"
proof -
  have a: "fst (fdopen musl_hdr world0 3 ''w'') = Some 4096" by (simp add: run_defs)
  show ?thesis
    using fdopen_buffer_layout [OF a] a by (auto simp: musl_hdr_def)
qed

subsection \<open>The empty mode string\<close>

text \<open>
  Claim C9. The empty mode string passes the check of the first character, because
  \<^verbatim>\<open>strchr("rwa", 0)\<close> finds the terminator. So when the query and the allocation
  succeed, the call on the empty mode does not fail with \<^verbatim>\<open>EINVAL\<close>: it returns the
  allocated stream, whose flags are exactly the no-read flag.
\<close>

theorem fdopen_empty_mode:
  assumes "fcntl h w fildes F_GETFL = (flags0, w1)" and "0 \<le> flags0"
    and "malloc h w1 (sizeof_FILE h + UNGET h + BUFSIZ h) = (Some f, w2)"
  shows "\<exists>F. strchr ''rwa'' (deref '''') \<noteq> None \<and>
     fst (fdopen h w fildes '''') = Some f \<and>
     fdopen h w fildes '''' \<noteq> (None, w\<lparr>errno := EINVAL h\<rparr>) \<and>
     files (snd (fdopen h w fildes '''')) f = Some F \<and>
     flags F = F_NORD h \<and> flags F AND F_NORD h = F_NORD h"
proof -
  have v: "strchr ''rwa'' (deref '''') \<noteq> None"
    by (simp add: deref_def)
  have res: "fst (fdopen h w fildes '''') = Some f"
    by (simp add: fdopen_ok [OF v assms] construct_fst)
  then have ne: "fdopen h w fildes '''' \<noteq> (None, w\<lparr>errno := EINVAL h\<rparr>)"
    by auto
  obtain F where F: "files (snd (fdopen h w fildes '''')) f = Some F"
    and fl: "flags F = (if strchr '''' CHR ''+'' = None
                then (if deref '''' = CHR ''r'' then F_NOWR h else F_NORD h) else 0)
               OR (if deref '''' = CHR ''a'' then F_APP h else 0)"
    using fdopen_stream [OF res] by blast
  have "flags F = F_NORD h"
    using fl by (simp add: deref_def)
  then show ?thesis using v res ne F by simp
qed

theorem fdopen_empty_mode_witness:
  "0 \<le> fst (fcntl musl_hdr world0 1 F_GETFL) \<and>
   fst (malloc musl_hdr (snd (fcntl musl_hdr world0 1 F_GETFL)) 1264) = Some 4096 \<and>
   fst (fdopen musl_hdr world0 1 '''') = Some 4096 \<and>
   map_option flags (files (snd (fdopen musl_hdr world0 1 '''')) 4096) = Some (F_NORD musl_hdr)"
proof -
  have c: "fcntl musl_hdr world0 1 F_GETFL =
      (fst (fcntl musl_hdr world0 1 F_GETFL), snd (fcntl musl_hdr world0 1 F_GETFL))"
    by simp
  have d: "0 \<le> fst (fcntl musl_hdr world0 1 F_GETFL)" by (simp add: run_defs)
  have n: "sizeof_FILE musl_hdr + UNGET musl_hdr + BUFSIZ musl_hdr = 1264"
    by (simp add: musl_hdr_def)
  have m: "fst (malloc musl_hdr (snd (fcntl musl_hdr world0 1 F_GETFL)) 1264) = Some 4096"
    by (simp add: run_defs)
  have e: "malloc musl_hdr (snd (fcntl musl_hdr world0 1 F_GETFL))
       (sizeof_FILE musl_hdr + UNGET musl_hdr + BUFSIZ musl_hdr) =
      (Some 4096, snd (malloc musl_hdr (snd (fcntl musl_hdr world0 1 F_GETFL)) 1264))"
    using m by (simp add: n prod_eq_iff)
  show ?thesis
    using fdopen_empty_mode [OF c d e] d m by auto
qed

subsection \<open>What the mode string decides\<close>

text \<open>
  Claim C10. The call reads three facts of the mode string: its first character, whether
  it contains \<open>+\<close> and whether it contains \<open>e\<close>. For two mode strings that agree on the
  three, the call on the same descriptor in the same process returns the same result and
  leaves the same state: the same stream, the same descriptor table and the same calls to
  the collaborators.
\<close>

theorem fdopen_mode_facts:
  assumes "deref m1 = deref m2"
    and "(strchr m1 CHR ''+'' = None) = (strchr m2 CHR ''+'' = None)"
    and "(strchr m1 CHR ''e'' = None) = (strchr m2 CHR ''e'' = None)"
  shows "fdopen h w fildes m1 = fdopen h w fildes m2"
proof -
  have "construct h w' fildes m1 fl f = construct h w' fildes m2 fl f" for w' fl f
    by (simp only: construct_def impose_mode_cong [OF assms(1,2)]
        apply_cloexec_cong [OF assms(3)] set_append_cong [OF assms(1)])
  then show ?thesis
    by (simp only: fdopen_def assms(1))
qed

theorem fdopen_mode_facts_witness:
  "deref ''a+e'' = deref ''abe+x'' \<and>
   (strchr ''a+e'' CHR ''+'' = None) = (strchr ''abe+x'' CHR ''+'' = None) \<and>
   (strchr ''a+e'' CHR ''e'' = None) = (strchr ''abe+x'' CHR ''e'' = None) \<and>
   fdopen musl_hdr world0 3 ''a+e'' = fdopen musl_hdr world0 3 ''abe+x'' \<and>
   issued world0 (snd (fdopen musl_hdr world0 3 ''abe+x''))
     = [Fcntl 3 F_GETFL, Malloc 1264, Fcntl 3 (F_SETFD 1), Fcntl 3 (F_SETFL 1026), Ofl_add 4096]"
proof -
  have a: "deref ''a+e'' = deref ''abe+x''" by (simp add: deref_def)
  have b: "(strchr ''a+e'' CHR ''+'' = None) = (strchr ''abe+x'' CHR ''+'' = None)" by simp
  have c: "(strchr ''a+e'' CHR ''e'' = None) = (strchr ''abe+x'' CHR ''e'' = None)" by simp
  have i: "issued world0 (snd (fdopen musl_hdr world0 3 ''abe+x''))
     = [Fcntl 3 F_GETFL, Malloc 1264, Fcntl 3 (F_SETFD 1), Fcntl 3 (F_SETFL 1026), Ofl_add 4096]"
    by (simp add: run_defs)
  show ?thesis
    using fdopen_mode_facts [OF a b c, of musl_hdr world0 3] a b c i by simp
qed

end
